theory Spec2Isabelle
  imports Main "HOL-Library.Sublist"
begin

section \<open>Data model\<close>

text \<open>
  The GraphQL schema of \<^verbatim>\<open>server.js\<close> (lines 15-78): the \<^verbatim>\<open>Status\<close> enum, the
  \<^verbatim>\<open>Order\<close> type with its nested types, and the \<^verbatim>\<open>FilterInput\<close> input type.
  Strings are lists of 8-bit characters; a \<^verbatim>\<open>null\<close> or absent value is \<open>None\<close>. The
  fields \<^verbatim>\<open>zip\<close> and \<^verbatim>\<open>id\<close> are written \<open>zip'\<close> and \<open>id'\<close>, the plain names
  being functions of the library.
\<close>

datatype Status = "open" | closed | picking | picked | packed | shipped | cancelled

record ShippingAddress =
  verified :: "bool option"
  name :: "string option"
  company :: "string option"
  address_line1 :: "string option"
  city :: "string option"
  state :: "string option"
  state_code :: "string option"
  country :: "string option"
  country_code :: "string option"
  zip' :: "string option"

record Item =
  sku :: string
  name :: string
  total_qty :: int
  remaining_qty :: int

record Shipment =
  shipment_id :: string
  carrier :: string
  service :: string
  tracking_number :: string

text \<open>
  The stored order document. Its schema (\<^verbatim>\<open>models/order.model\<close>) is not part of the
  sources, so the field types follow section 3 of the specification: timestamps are
  instants (milliseconds since the epoch), \<^verbatim>\<open>closed_at\<close> is absent until the order closes.
\<close>

record Order =
  id' :: string
  client_name :: string
  code :: int
  status :: Status
  created_at :: int
  closed_at :: "int option"
  shipping_address :: "ShippingAddress option"
  items :: "Item list"
  shipments :: "Shipment list"

text \<open>
  \<^verbatim>\<open>input FilterInput\<close>: every field is nullable, and \<^verbatim>\<open>status: [Status]\<close> is a list
  whose elements are nullable too.
\<close>

record FilterInput =
  client_name :: "string option"
  status :: "Status option list option"
  created_at_start :: "string option"
  created_at_end :: "string option"
  closed_at_start :: "string option"
  closed_at_end :: "string option"
  item_name :: "string option"

section \<open>The filter translator (resolvers.orders, lines 85-136)\<close>

text \<open>
  A JavaScript \<^verbatim>\<open>Date\<close> object holds a time value or \<^verbatim>\<open>NaN\<close> (an Invalid Date).
  \<^verbatim>\<open>new Date(s)\<close> never throws: it parses \<open>s\<close> with \<^verbatim>\<open>Date.parse\<close>, a function of
  the language runtime, which is a parameter of the model (\<open>None\<close> is \<^verbatim>\<open>NaN\<close>).
\<close>

datatype Date = Date int | Invalid_Date

definition new_Date :: "(string \<Rightarrow> int option) \<Rightarrow> string \<Rightarrow> Date" where
  "new_Date parse s = (case parse s of Some t \<Rightarrow> Date t | None \<Rightarrow> Invalid_Date)"

text \<open>
  The query object the resolver builds. \<open>query.status = Some xs\<close> is the condition
  \<^verbatim>\<open>{ $in: xs }\<close>; a \<open>regex_cond\<close> is \<^verbatim>\<open>{ $regex: ..., $options: ... }\<close>; a
  \<open>date_range\<close> is an object with the optional keys \<^verbatim>\<open>$gte\<close> and \<^verbatim>\<open>$lte\<close>;
  \<open>items_name\<close> is the key \<^verbatim>\<open>"items.name"\<close>. A key the object does not have is \<open>None\<close>.
\<close>

record regex_cond =
  regex :: string
  options :: string

record date_range =
  gte :: "Date option"
  lte :: "Date option"

record query =
  status :: "Status option list option"
  client_name :: "regex_cond option"
  created_at :: "date_range option"
  closed_at :: "date_range option"
  items_name :: "regex_cond option"

text \<open>\<^verbatim>\<open>const query = {}\<close>\<close>

definition empty_query :: query where
  "empty_query = \<lparr>query.status = None, client_name = None, created_at = None,
     closed_at = None, items_name = None\<rparr>"

text \<open>
  The only exception the translator can raise: assigning a property of \<^verbatim>\<open>undefined\<close>.
\<close>

datatype error = TypeError

text \<open>
  Truthiness of a nullable string, as \<^verbatim>\<open>if (filter.client_name)\<close> tests it: \<^verbatim>\<open>null\<close>,
  \<^verbatim>\<open>undefined\<close> and the empty string are falsy. An array is always truthy, so
  \<^verbatim>\<open>if (filter.status)\<close> only asks whether the list is there.
\<close>

definition truthy :: "string option \<Rightarrow> bool" where
  "truthy v = (case v of None \<Rightarrow> False | Some s \<Rightarrow> s \<noteq> [])"

text \<open>Lines 90-92.\<close>

definition status_step :: "FilterInput \<Rightarrow> query \<Rightarrow> query" where
  "status_step f q =
     (case FilterInput.status f of
        None \<Rightarrow> q
      | Some xs \<Rightarrow> q\<lparr>query.status := Some xs\<rparr>)"

text \<open>Lines 95-100.\<close>

definition client_name_step :: "FilterInput \<Rightarrow> query \<Rightarrow> query" where
  "client_name_step f q =
     (case FilterInput.client_name f of
        None \<Rightarrow> q
      | Some s \<Rightarrow>
          if s \<noteq> [] then q\<lparr>query.client_name := Some \<lparr>regex = s, options = ''i''\<rparr>\<rparr>
          else q)"

text \<open>Lines 102-106, 114-118: the start bound assigns a fresh object holding \<^verbatim>\<open>$gte\<close> only.\<close>

definition start_bound :: "(string \<Rightarrow> int option) \<Rightarrow> string option \<Rightarrow> date_range option
    \<Rightarrow> date_range option" where
  "start_bound parse v field =
     (case v of
        None \<Rightarrow> field
      | Some s \<Rightarrow>
          if s \<noteq> [] then Some \<lparr>gte = Some (new_Date parse s), lte = None\<rparr>
          else field)"

text \<open>
  Lines 108-112, 120-124: the end bound sets \<^verbatim>\<open>$lte\<close> on the object already stored under
  the field. When the field is \<^verbatim>\<open>undefined\<close> the assignment throws a \<^verbatim>\<open>TypeError\<close>.
\<close>

definition end_bound :: "(string \<Rightarrow> int option) \<Rightarrow> string option \<Rightarrow> date_range option
    \<Rightarrow> error + date_range option" where
  "end_bound parse v field =
     (case v of
        None \<Rightarrow> Inr field
      | Some s \<Rightarrow>
          if s \<noteq> [] then
            (case field of
               None \<Rightarrow> Inl TypeError
             | Some r \<Rightarrow> Inr (Some (r\<lparr>lte := Some (new_Date parse s)\<rparr>)))
          else Inr field)"

text \<open>Lines 126-131.\<close>

definition item_name_step :: "FilterInput \<Rightarrow> query \<Rightarrow> query" where
  "item_name_step f q =
     (case item_name f of
        None \<Rightarrow> q
      | Some s \<Rightarrow>
          if s \<noteq> [] then q\<lparr>items_name := Some \<lparr>regex = s, options = ''i''\<rparr>\<rparr>
          else q)"

text \<open>
  Lines 86-132: the query object the resolver ends with, or the exception it throws. The
  \<^verbatim>\<open>filter\<close> argument itself may be absent (\<^verbatim>\<open>if (filter)\<close>). The blocks run in the
  order of the source.
\<close>

definition orders_query :: "(string \<Rightarrow> int option) \<Rightarrow> FilterInput option \<Rightarrow> error + query" where
  "orders_query parse arg =
     (case arg of
        None \<Rightarrow> Inr empty_query
      | Some f \<Rightarrow>
          let q1 = status_step f empty_query;
              q2 = client_name_step f q1;
              q3 = q2\<lparr>query.created_at := start_bound parse (created_at_start f) (query.created_at q2)\<rparr>
          in case end_bound parse (created_at_end f) (query.created_at q3) of
               Inl e \<Rightarrow> Inl e
             | Inr c \<Rightarrow>
                 let q4 = q3\<lparr>query.created_at := c\<rparr>;
                     q5 = q4\<lparr>query.closed_at := start_bound parse (closed_at_start f) (query.closed_at q4)\<rparr>
                 in case end_bound parse (closed_at_end f) (query.closed_at q5) of
                      Inl e \<Rightarrow> Inl e
                    | Inr d \<Rightarrow> Inr (item_name_step f (q5\<lparr>query.closed_at := d\<rparr>)))"

text \<open>
  The inputs on which no end bound stands without its start bound.
\<close>

definition ends_have_starts :: "FilterInput \<Rightarrow> bool" where
  "ends_have_starts f \<longleftrightarrow>
     (truthy (created_at_end f) \<longrightarrow> truthy (created_at_start f)) \<and>
     (truthy (closed_at_end f) \<longrightarrow> truthy (closed_at_start f))"

text \<open>
  The filter in which every string field that holds the empty string is made absent.
\<close>

definition absent_if_empty :: "string option \<Rightarrow> string option" where
  "absent_if_empty v = (case v of None \<Rightarrow> None | Some s \<Rightarrow> if s = [] then None else Some s)"

definition without_empty_strings :: "FilterInput \<Rightarrow> FilterInput" where
  "without_empty_strings f =
     f\<lparr>FilterInput.client_name := absent_if_empty (FilterInput.client_name f),
       created_at_start := absent_if_empty (created_at_start f),
       created_at_end := absent_if_empty (created_at_end f),
       closed_at_start := absent_if_empty (closed_at_start f),
       closed_at_end := absent_if_empty (closed_at_end f),
       item_name := absent_if_empty (item_name f)\<rparr>"

section \<open>The document store's matching of a query object\<close>

text \<open>
  \<^verbatim>\<open>Order.find(query)\<close> hands the query object to the document store, which is not part
  of the sources. The definitions of this section are its model.
\<close>

subsection \<open>Regular expressions\<close>

text \<open>
  Modelled from the spec: the store's regular-expression engine is missing from the
  sources (section 1 assumes a store that supports regex queries). The model covers the
  patterns built from characters that stand for themselves and from the wildcard \<^verbatim>\<open>.\<close>
  (any character but a line feed); a pattern with any other metacharacter, or with the
  character 0, is outside the model (\<open>None\<close>). The pattern is searched for anywhere in the
  subject (it is not anchored), and with the option \<^verbatim>\<open>i\<close> letters match regardless of
  case. The letters of the 8-bit characters are the ASCII letters and those of Latin-1
  (the codes 192 to 222 without the multiplication sign 215 are the capitals, each 32
  below its small letter).
\<close>

datatype rx_item = Lit char | Any_char

definition metachars :: string where
  "metachars = ''^$.[]|()?*+{}'' @ [CHR 0x5C]"

definition rx_item_of :: "char \<Rightarrow> rx_item option" where
  "rx_item_of c =
     (if c = CHR ''.'' then Some Any_char
      else if c \<in> set metachars \<or> c = CHR 0x00 then None
      else Some (Lit c))"

fun rx_compile :: "string \<Rightarrow> rx_item list option" where
  "rx_compile [] = Some []"
| "rx_compile (c # cs) =
     (case rx_item_of c of
        None \<Rightarrow> None
      | Some i \<Rightarrow> map_option ((#) i) (rx_compile cs))"

definition to_lower :: "char \<Rightarrow> char" where
  "to_lower c =
     (case map_of (zip ''ABCDEFGHIJKLMNOPQRSTUVWXYZ'' ''abcdefghijklmnopqrstuvwxyz'') c of
        Some l \<Rightarrow> l
      | None \<Rightarrow>
          (let n = (of_char c :: nat)
           in if 192 \<le> n \<and> n \<le> 222 \<and> n \<noteq> 215 then char_of (n + 32) else c))"

fun rx_item_matches :: "rx_item \<Rightarrow> char \<Rightarrow> bool" where
  "rx_item_matches (Lit a) c = (to_lower a = to_lower c)"
| "rx_item_matches Any_char c = (c \<noteq> CHR 0x0A)"

fun rx_match_here :: "rx_item list \<Rightarrow> string \<Rightarrow> bool" where
  "rx_match_here [] s = True"
| "rx_match_here (p # ps) [] = False"
| "rx_match_here (p # ps) (c # cs) = (rx_item_matches p c \<and> rx_match_here ps cs)"

fun rx_search :: "rx_item list \<Rightarrow> string \<Rightarrow> bool" where
  "rx_search ps [] = rx_match_here ps []"
| "rx_search ps (c # cs) = (rx_match_here ps (c # cs) \<or> rx_search ps cs)"

text \<open>
  The test a \<^verbatim>\<open>{ $regex, $options }\<close> condition applies to a string. The translator only
  ever writes the options \<^verbatim>\<open>"i"\<close>; other options are outside the model.
\<close>

definition regex_pred :: "regex_cond \<Rightarrow> (string \<Rightarrow> bool) option" where
  "regex_pred rc =
     (if options rc = ''i'' then map_option rx_search (rx_compile (regex rc)) else None)"



subsection \<open>Conditions and their conjunction\<close>

text \<open>
  Modelled from the spec: the store's evaluation of a query object against a document is
  missing from the sources. Following sections 3 and 4.1 of the specification, the
  conditions of a query are conjoined; \<^verbatim>\<open>$in\<close> is membership in the list; \<^verbatim>\<open>$gte\<close> and
  \<^verbatim>\<open>$lte\<close> are inclusive bounds on a timestamp, which a document without the timestamp
  does not satisfy; a regex condition on \<^verbatim>\<open>items.name\<close> asks for one item whose name
  passes the test. The result is \<open>None\<close> where the model does not say what the store does:
  a bound that is an Invalid Date, or a pattern outside the modelled regular expressions.
\<close>

definition and3 :: "bool option \<Rightarrow> bool option \<Rightarrow> bool option" where
  "and3 a b =
     (case a of
        None \<Rightarrow> None
      | Some x \<Rightarrow> (case b of None \<Rightarrow> None | Some y \<Rightarrow> Some (x \<and> y)))"

definition status_holds :: "Status option list option \<Rightarrow> Status \<Rightarrow> bool option" where
  "status_holds c s =
     (case c of
        None \<Rightarrow> Some True
      | Some xs \<Rightarrow> Some (Some s \<in> set xs))"

definition regex_holds :: "regex_cond option \<Rightarrow> string list \<Rightarrow> bool option" where
  "regex_holds c vs =
     (case c of
        None \<Rightarrow> Some True
      | Some rc \<Rightarrow> map_option (\<lambda>p. list_ex p vs) (regex_pred rc))"

definition date_gte :: "int option \<Rightarrow> Date option \<Rightarrow> bool option" where
  "date_gte v b =
     (case b of
        None \<Rightarrow> Some True
      | Some Invalid_Date \<Rightarrow> None
      | Some (Date t) \<Rightarrow> Some (case v of None \<Rightarrow> False | Some x \<Rightarrow> t \<le> x))"

definition date_lte :: "int option \<Rightarrow> Date option \<Rightarrow> bool option" where
  "date_lte v b =
     (case b of
        None \<Rightarrow> Some True
      | Some Invalid_Date \<Rightarrow> None
      | Some (Date t) \<Rightarrow> Some (case v of None \<Rightarrow> False | Some x \<Rightarrow> x \<le> t))"

definition range_holds :: "date_range option \<Rightarrow> int option \<Rightarrow> bool option" where
  "range_holds c v =
     (case c of
        None \<Rightarrow> Some True
      | Some r \<Rightarrow> and3 (date_gte v (gte r)) (date_lte v (lte r)))"

text \<open>
  Whether the order \<open>d\<close> satisfies the query \<open>q\<close>: \<open>Some True\<close> when the store returns it.
\<close>

definition matches :: "query \<Rightarrow> Order \<Rightarrow> bool option" where
  "matches q d =
     and3 (status_holds (query.status q) (Order.status d))
       (and3 (regex_holds (query.client_name q) [Order.client_name d])
          (and3 (range_holds (query.created_at q) (Some (Order.created_at d)))
             (and3 (range_holds (query.closed_at q) (Order.closed_at d))
                (regex_holds (items_name q) (map Item.name (items d))))))"

section \<open>The NL-to-query bridge (generateGraphQLQuery, lines 171-215)\<close>

text \<open>
  JSON values, as the request body and the GraphQL response carry them. A number is the
  finite double \<open>m * 2 ^ e\<close>, given by \<open>m\<close> and \<open>e\<close>; an object is the list of its
  properties.
\<close>

datatype json =
    JNull
  | JBool bool
  | JNumber int int
  | JString string
  | JArray "json list"
  | JObject "(string \<times> json) list"

text \<open>
  The outcome of an \<^verbatim>\<open>axios.post\<close> call, which the network and the remote service decide:
  the promise is rejected with an error that has a message (a transport failure, or a
  status outside 2xx), or resolved with the response data.
\<close>

datatype 'a axios_result = Rejected string | Resolved 'a

text \<open>
  What the handlers do besides answering: the calls they send and the lines they log.
\<close>

datatype exn = AxiosError string | TypeError_thrown

datatype event =
    Post_completions json
  | Post_graphql string
  | Console_log string string
  | Console_error string exn

text \<open>
  \<^verbatim>\<open>String.prototype.trim\<close> removes white space and line terminators from both ends. With
  8-bit characters these are tab, line feed, vertical tab, form feed, carriage return,
  space and no-break space.
\<close>

definition is_space :: "char \<Rightarrow> bool" where
  "is_space c \<longleftrightarrow>
     c \<in> set [CHR 0x09, CHR 0x0A, CHR 0x0B, CHR 0x0C, CHR 0x0D, CHR 0x20, CHR 0xA0]"

definition trim :: "string \<Rightarrow> string" where
  "trim s = rev (dropWhile is_space (rev (dropWhile is_space s)))"

text \<open>
  \<^verbatim>\<open>s.replace(/pat/g, rep)\<close> for a pattern that is a plain string: the occurrences are
  found from left to right, and the search resumes after each one. The patterns of the
  source are never empty.
\<close>

function replace_all :: "string \<Rightarrow> string \<Rightarrow> string \<Rightarrow> string" where
  "replace_all pat rep s =
     (if s = [] then []
      else if pat \<noteq> [] \<and> prefix pat s then rep @ replace_all pat rep (drop (length pat) s)
      else hd s # replace_all pat rep (tl s))"
  by pat_completeness auto
termination
  by (relation "measure (\<lambda>(pat, rep, s). length s)") auto

text \<open>
  Lines 201-208: the content is trimmed first, then every \<^verbatim>\<open>```graphql\<close> and after that
  every \<^verbatim>\<open>```\<close> is removed, then every line feed becomes a space.
\<close>

definition fence :: string where
  "fence = ''```''"

definition clean_query :: "string \<Rightarrow> string" where
  "clean_query content =
     replace_all [CHR 0x0A] '' ''
       (replace_all fence []
          (replace_all (fence @ ''graphql'') [] (trim content)))"

text \<open>
  The body of the \<^verbatim>\<open>try\<close> block, given the outcome of the call to the completion API. The
  response data is reduced to the list \<^verbatim>\<open>response.data.choices\<close>, each choice to its
  \<^verbatim>\<open>message.content\<close> (\<open>None\<close> when it is not a string). Reading \<^verbatim>\<open>choices[0].message\<close>
  of an empty list and calling \<^verbatim>\<open>trim\<close> on \<^verbatim>\<open>null\<close> throw a \<^verbatim>\<open>TypeError\<close>; so does a
  response without the list, which the empty list stands for.
\<close>

definition try_generate :: "string option list axios_result \<Rightarrow> exn + string" where
  "try_generate r =
     (case r of
        Rejected msg \<Rightarrow> Inl (AxiosError msg)
      | Resolved choices \<Rightarrow>
          (case choices of
             [] \<Rightarrow> Inl TypeError_thrown
           | None # _ \<Rightarrow> Inl TypeError_thrown
           | Some content # _ \<Rightarrow> Inr (clean_query content)))"

text \<open>
  \<^verbatim>\<open>generateGraphQLQuery\<close>: the call is sent, and the \<^verbatim>\<open>catch\<close> block turns every exception
  of the \<^verbatim>\<open>try\<close> block into a logged line and the result \<^verbatim>\<open>null\<close> (\<open>None\<close>). The result is
  \<open>Inl\<close> when the function throws, \<open>Inr\<close> when it returns.
\<close>

definition generateGraphQLQuery ::
    "(json \<Rightarrow> string option list axios_result) \<Rightarrow> json \<Rightarrow> (exn + string option) \<times> event list" where
  "generateGraphQLQuery api userInput =
     (case try_generate (api userInput) of
        Inr graphqlQuery \<Rightarrow> (Inr (Some graphqlQuery), [Post_completions userInput])
      | Inl e \<Rightarrow>
          (Inr None,
           [Post_completions userInput, Console_error ''Error generating GraphQL query:'' e]))"

section \<open>The HTTP handlers (lines 152-168 and 217-249)\<close>

record http_response =
  status_code :: nat
  body :: json

text \<open>
  \<^verbatim>\<open>!userInput\<close> for a property of the request body that may be missing. For the
  bridge's result, \<^verbatim>\<open>!graphqlQuery\<close> holds of \<^verbatim>\<open>null\<close> and of the empty string.
\<close>

fun falsy :: "json option \<Rightarrow> bool" where
  "falsy None = True"
| "falsy (Some JNull) = True"
| "falsy (Some (JBool b)) = (\<not> b)"
| "falsy (Some (JNumber m e)) = (m = 0)"
| "falsy (Some (JString s)) = (s = [])"
| "falsy (Some (JArray xs)) = False"
| "falsy (Some (JObject kvs)) = False"

definition send :: "nat \<Rightarrow> (string \<times> json) list \<Rightarrow> http_response" where
  "send st kvs = \<lparr>status_code = st, body = JObject kvs\<rparr>"

text \<open>
  \<^verbatim>\<open>app.post("/generate-query", ...)\<close>. The request body is the parsed JSON object. The
  handler has no \<^verbatim>\<open>try\<close> block: an exception of the bridge would leave it without a
  response (\<open>Inl\<close>).
\<close>

definition generate_query ::
    "(json \<Rightarrow> string option list axios_result) \<Rightarrow> (string \<times> json) list
     \<Rightarrow> (exn + http_response) \<times> event list" where
  "generate_query api req_body =
     (case map_of req_body ''userInput'' of
        None \<Rightarrow> (Inr (send 400 [(''error'', JString ''User input is required'')]), [])
      | Some userInput \<Rightarrow>
          if falsy (Some userInput)
          then (Inr (send 400 [(''error'', JString ''User input is required'')]), [])
          else
            (case generateGraphQLQuery api userInput of
               (Inl e, evs) \<Rightarrow> (Inl e, evs)
             | (Inr graphqlQuery, evs) \<Rightarrow>
                 (case graphqlQuery of
                    None \<Rightarrow>
                      (Inr (send 500 [(''error'', JString ''Failed to generate GraphQL query'')]), evs)
                  | Some g \<Rightarrow>
                      if g = []
                      then (Inr (send 500 [(''error'', JString ''Failed to generate GraphQL query'')]), evs)
                      else (Inr (send 200 [(''graphqlQuery'', JString g)]), evs))))"

text \<open>
  \<^verbatim>\<open>app.post("/fetch-orders", ...)\<close>: the generated query is posted to the GraphQL endpoint
  of the same server (\<open>gql\<close> is the outcome of that call), and every exception inside the
  \<^verbatim>\<open>try\<close> block ends in the response 500.
\<close>

definition fetch_orders ::
    "(json \<Rightarrow> string option list axios_result) \<Rightarrow> (string \<Rightarrow> json axios_result)
     \<Rightarrow> (string \<times> json) list \<Rightarrow> (exn + http_response) \<times> event list" where
  "fetch_orders api gql req_body =
     (case map_of req_body ''userInput'' of
        None \<Rightarrow> (Inr (send 400 [(''error'', JString ''User input is required'')]), [])
      | Some userInput \<Rightarrow>
          if falsy (Some userInput)
          then (Inr (send 400 [(''error'', JString ''User input is required'')]), [])
          else
            (case generateGraphQLQuery api userInput of
               (Inl e, evs) \<Rightarrow>
                 (Inr (send 500 [(''error'', JString ''Failed to fetch orders'')]),
                  evs @ [Console_error ''Error in fetching orders:'' e])
             | (Inr graphqlQuery, evs) \<Rightarrow>
                 (case graphqlQuery of
                    None \<Rightarrow>
                      (Inr (send 500 [(''error'', JString ''Failed to generate GraphQL query'')]), evs)
                  | Some g \<Rightarrow>
                      if g = []
                      then (Inr (send 500 [(''error'', JString ''Failed to generate GraphQL query'')]), evs)
                      else
                        (case gql g of
                           Rejected msg \<Rightarrow>
                             (Inr (send 500 [(''error'', JString ''Failed to fetch orders'')]),
                              evs @ [Console_log ''Generated GraphQL Query:'' g, Post_graphql g,
                                     Console_error ''Error in fetching orders:'' (AxiosError msg)])
                         | Resolved data \<Rightarrow>
                             (Inr (send 200 [(''data'', data)]),
                              evs @ [Console_log ''Generated GraphQL Query:'' g, Post_graphql g])))))"

section \<open>Sample data\<close>

text \<open>
  An instance of the date parser for the examples: it agrees with \<^verbatim>\<open>Date.parse\<close> on the
  ISO dates of its table (midnight UTC, in milliseconds) and, like \<^verbatim>\<open>Date.parse\<close>, finds
  no date in \<^verbatim>\<open>not-a-date\<close>.
\<close>

definition sample_parse :: "string \<Rightarrow> int option" where
  "sample_parse = map_of
     [(''2024-01-01'', 1704067200000),
      (''2024-01-31'', 1706659200000),
      (''2024-02-15'', 1707955200000)]"

definition no_filter :: FilterInput where
  "no_filter = \<lparr>FilterInput.client_name = None, status = None, created_at_start = None,
     created_at_end = None, closed_at_start = None, closed_at_end = None, item_name = None\<rparr>"

definition sample_order :: Order where
  "sample_order = \<lparr>id' = ''o1'', client_name = ''Acme Corp'', code = 17, status = shipped,
     created_at = 1704067200000, closed_at = Some 1706659200000, shipping_address = None,
     items = [\<lparr>sku = ''W-1'', name = ''Blue Widget'', total_qty = 3, remaining_qty = 0\<rparr>],
     shipments = []\<rparr>"

section \<open>Properties of the filter translator\<close>

lemmas step_defs = status_step_def client_name_step_def start_bound_def end_bound_def
  item_name_step_def empty_query_def truthy_def new_Date_def

lemmas store_defs = matches_def and3_def status_holds_def regex_holds_def range_holds_def
  date_gte_def date_lte_def regex_pred_def

lemma orders_query_Some:
  "orders_query parse (Some f) =
     (case end_bound parse (created_at_end f) (start_bound parse (created_at_start f) None) of
        Inl e \<Rightarrow> Inl e
      | Inr c \<Rightarrow>
         (case end_bound parse (closed_at_end f) (start_bound parse (closed_at_start f) None) of
            Inl e \<Rightarrow> Inl e
          | Inr d \<Rightarrow> Inr \<lparr>query.status = FilterInput.status f,
                client_name = query.client_name (client_name_step f empty_query),
                created_at = c, closed_at = d,
                items_name = items_name (item_name_step f empty_query)\<rparr>))"
  by (simp add: orders_query_def Let_def status_step_def client_name_step_def
      item_name_step_def empty_query_def split: option.splits sum.splits)

lemma end_bound_raises:
  "end_bound parse e (start_bound parse s None) = Inl TypeError \<longleftrightarrow> truthy e \<and> \<not> truthy s"
  by (auto simp: end_bound_def start_bound_def truthy_def split: option.splits)

lemma end_bound_returns:
  "truthy e \<longrightarrow> truthy s \<Longrightarrow> \<exists>c. end_bound parse e (start_bound parse s None) = Inr c"
  by (auto simp: end_bound_def start_bound_def truthy_def split: option.splits)

lemma and3_Some_True: "and3 a b = Some True \<longleftrightarrow> a = Some True \<and> b = Some True"
  by (auto simp: and3_def split: option.splits)

text \<open>
  Claim C1 asks that an end bound given without its start bound still yields a predicate
  with an inclusive upper bound. The code does not: when \<^verbatim>\<open>created_at_end\<close> (or
  \<^verbatim>\<open>closed_at_end\<close>) is a non-empty string and the corresponding start bound is absent or
  empty, line 109 (line 121) assigns \<^verbatim>\<open>$lte\<close> on an undefined field and the resolver
  throws a \<^verbatim>\<open>TypeError\<close>; no predicate is produced.
\<close>

theorem end_bound_alone_raises:
  assumes "truthy (created_at_end f) \<and> \<not> truthy (created_at_start f)
         \<or> truthy (closed_at_end f) \<and> \<not> truthy (closed_at_start f)"
  shows "orders_query parse (Some f) = Inl TypeError"
proof (cases "truthy (created_at_end f) \<and> \<not> truthy (created_at_start f)")
  case True
  then have "end_bound parse (created_at_end f) (start_bound parse (created_at_start f) None)
      = Inl TypeError"
    by (simp add: end_bound_raises)
  then show ?thesis
    by (simp add: orders_query_Some)
next
  case False
  with assms have "end_bound parse (closed_at_end f) (start_bound parse (closed_at_start f) None)
      = Inl TypeError"
    by (simp add: end_bound_raises)
  then show ?thesis
    by (cases "end_bound parse (created_at_end f) (start_bound parse (created_at_start f) None)")
       (simp_all add: orders_query_Some, (case_tac a, simp))
qed

theorem end_bound_alone_raises_witness:
  "truthy (created_at_end (no_filter\<lparr>created_at_end := Some ''2024-01-31''\<rparr>))
   \<and> \<not> truthy (created_at_start (no_filter\<lparr>created_at_end := Some ''2024-01-31''\<rparr>))
   \<and> orders_query sample_parse (Some (no_filter\<lparr>created_at_end := Some ''2024-01-31''\<rparr>))
       = Inl TypeError"
  using end_bound_alone_raises [of "no_filter\<lparr>created_at_end := Some ''2024-01-31''\<rparr>" sample_parse]
  by (simp add: no_filter_def truthy_def)

text \<open>
  Claim C6: when the filter argument is absent, and when it is a \<^verbatim>\<open>FilterInput\<close> with no
  field set, the translator returns the empty query object, which every order satisfies.
\<close>

theorem no_filter_matches_every_order:
  "orders_query parse None = Inr empty_query
   \<and> orders_query parse (Some no_filter) = Inr empty_query
   \<and> matches empty_query d = Some True"
  by (simp add: orders_query_def no_filter_def step_defs store_defs)


lemma orders_query_returns:
  assumes "ends_have_starts f"
  shows "\<exists>q. orders_query parse (Some f) = Inr q"
proof -
  from assms obtain c where c:
    "end_bound parse (created_at_end f) (start_bound parse (created_at_start f) None) = Inr c"
    using end_bound_returns [of "created_at_end f" "created_at_start f" parse]
    by (auto simp: ends_have_starts_def)
  from assms obtain d where d:
    "end_bound parse (closed_at_end f) (start_bound parse (closed_at_start f) None) = Inr d"
    using end_bound_returns [of "closed_at_end f" "closed_at_start f" parse]
    by (auto simp: ends_have_starts_def)
  show ?thesis
    by (simp add: orders_query_Some c d)
qed

lemma orders_query_raises:
  assumes "\<not> ends_have_starts f"
  shows "orders_query parse (Some f) = Inl TypeError"
proof (cases "truthy (created_at_end f) \<and> \<not> truthy (created_at_start f)")
  case True
  then have "end_bound parse (created_at_end f) (start_bound parse (created_at_start f) None)
      = Inl TypeError"
    by (simp add: end_bound_raises)
  then show ?thesis
    by (simp add: orders_query_Some)
next
  case False
  with assms have "end_bound parse (closed_at_end f) (start_bound parse (closed_at_start f) None)
      = Inl TypeError"
    by (auto simp: end_bound_raises ends_have_starts_def)
  then show ?thesis
    by (auto simp: orders_query_Some split: sum.splits intro: error.exhaust)
qed

lemma orders_query_status:
  "orders_query parse (Some f) = Inr q \<Longrightarrow> query.status q = FilterInput.status f"
  by (auto simp: orders_query_Some split: sum.splits)

lemma orders_query_created_at:
  "orders_query parse (Some f) = Inr q \<Longrightarrow>
   end_bound parse (created_at_end f) (start_bound parse (created_at_start f) None)
     = Inr (query.created_at q)"
  by (auto simp: orders_query_Some split: sum.splits)




lemma and3_left_commute: "and3 a (and3 b c) = and3 b (and3 a c)"
  by (auto simp: and3_def split: option.splits)

lemma and3_Some_True_left [simp]: "and3 (Some True) b = b"
  by (simp add: and3_def split: option.splits)

lemma and3_commute: "and3 a b = and3 b a"
  by (auto simp: and3_def split: option.splits)

lemma and3_assoc: "and3 (and3 a b) c = and3 a (and3 b c)"
  by (auto simp: and3_def split: option.splits)

lemmas and3_ac = and3_assoc and3_commute and3_left_commute

lemma and3_Some_True_right [simp]: "and3 a (Some True) = a"
  by (simp add: and3_def split: option.splits)

lemma matches_split_status:
  "matches q d = and3 (status_holds (query.status q) (Order.status d))
                   (matches (q\<lparr>query.status := None\<rparr>) d)"
  by (simp add: matches_def and3_def status_holds_def split: option.splits)

lemma matches_split_created_at:
  "matches q d = and3 (range_holds (query.created_at q) (Some (Order.created_at d)))
                   (matches (q\<lparr>query.created_at := None\<rparr>) d)"
  by (simp add: matches_def range_holds_def and3_ac)



text \<open>
  Where the translator returns, the status filter is a membership test: it returns a
  query whenever no end bound stands alone; the query it returns holds the list under
  \<^verbatim>\<open>$in\<close>, its predicate is the conjunction of "the order's status is a member of the
  list" with the predicate of the other fields, so every order it matches has a status in
  the list; and when \<^verbatim>\<open>status\<close> is the only field set, the predicate matches exactly the
  orders whose status is a member of the list.
\<close>

theorem status_filter_is_membership:
  assumes "FilterInput.status f = Some xs"
  shows "(ends_have_starts f \<longrightarrow> (\<exists>q. orders_query parse (Some f) = Inr q))
       \<and> (\<forall>q d. orders_query parse (Some f) = Inr q \<longrightarrow>
             query.status q = Some xs
           \<and> matches q d = and3 (Some (Some (Order.status d) \<in> set xs))
                             (matches (q\<lparr>query.status := None\<rparr>) d)
           \<and> (matches q d = Some True \<longrightarrow> Some (Order.status d) \<in> set xs))
       \<and> (\<forall>d. \<exists>q. orders_query parse (Some (no_filter\<lparr>FilterInput.status := Some xs\<rparr>)) = Inr q
             \<and> matches q d = Some (Some (Order.status d) \<in> set xs))"
proof (intro conjI allI impI)
  show "\<exists>q. orders_query parse (Some f) = Inr q" if "ends_have_starts f"
    using that by (rule orders_query_returns)
next
  fix q d assume q: "orders_query parse (Some f) = Inr q"
  then show st: "query.status q = Some xs"
    using assms by (simp add: orders_query_status)
  show m: "matches q d = and3 (Some (Some (Order.status d) \<in> set xs))
      (matches (q\<lparr>query.status := None\<rparr>) d)"
    using matches_split_status [of q d] st by (simp add: status_holds_def)
  show "Some (Order.status d) \<in> set xs" if "matches q d = Some True"
    using that m by (simp add: and3_Some_True)
next
  fix d
  show "\<exists>q. orders_query parse (Some (no_filter\<lparr>FilterInput.status := Some xs\<rparr>)) = Inr q
      \<and> matches q d = Some (Some (Order.status d) \<in> set xs)"
    by (simp add: orders_query_def no_filter_def step_defs store_defs)
qed

theorem status_filter_is_membership_witness:
  "FilterInput.status (no_filter\<lparr>FilterInput.status := Some [Some shipped, Some cancelled]\<rparr>)
     = Some [Some shipped, Some cancelled]
   \<and> ends_have_starts (no_filter\<lparr>FilterInput.status := Some [Some shipped, Some cancelled]\<rparr>)
   \<and> orders_query sample_parse
        (Some (no_filter\<lparr>FilterInput.status := Some [Some shipped, Some cancelled]\<rparr>))
      = Inr (empty_query\<lparr>query.status := Some [Some shipped, Some cancelled]\<rparr>)
   \<and> matches (empty_query\<lparr>query.status := Some [Some shipped, Some cancelled]\<rparr>) sample_order
      = Some True
   \<and> Some (Order.status sample_order) \<in> set [Some shipped, Some cancelled]
   \<and> matches (empty_query\<lparr>query.status := Some [Some shipped, Some cancelled]\<rparr>)
        (sample_order\<lparr>Order.status := picked\<rparr>)
      = Some False"
  using status_filter_is_membership
    [of "no_filter\<lparr>FilterInput.status := Some [Some shipped, Some cancelled]\<rparr>"
        "[Some shipped, Some cancelled]" sample_parse]
  by (simp add: orders_query_def no_filter_def sample_order_def ends_have_starts_def
      step_defs store_defs)

text \<open>
  Claim C8 asks, for every filter with \<^verbatim>\<open>status\<close> set to a list, for a predicate that
  matches the orders whose status is a member of the list. The code does not produce one
  when an end bound stands without its start bound: lines 90-92 store the list, then line
  109 (or line 121) throws a \<^verbatim>\<open>TypeError\<close>, and no order is matched. This is the defect
  of claim C1.
\<close>

theorem status_filter_lost_when_an_end_bound_stands_alone:
  assumes "FilterInput.status f = Some xs" and "\<not> ends_have_starts f"
  shows "query.status (status_step f empty_query) = Some xs
       \<and> orders_query parse (Some f) = Inl TypeError"
  using assms by (simp add: status_step_def orders_query_raises)

theorem status_filter_lost_when_an_end_bound_stands_alone_witness:
  "FilterInput.status (no_filter\<lparr>FilterInput.status := Some [Some shipped, Some cancelled],
        created_at_end := Some ''2024-01-31''\<rparr>) = Some [Some shipped, Some cancelled]
   \<and> \<not> ends_have_starts (no_filter\<lparr>FilterInput.status := Some [Some shipped, Some cancelled],
        created_at_end := Some ''2024-01-31''\<rparr>)
   \<and> orders_query sample_parse (Some (no_filter\<lparr>FilterInput.status :=
        Some [Some shipped, Some cancelled], created_at_end := Some ''2024-01-31''\<rparr>))
      = Inl TypeError"
  using status_filter_lost_when_an_end_bound_stands_alone
    [of "no_filter\<lparr>FilterInput.status := Some [Some shipped, Some cancelled],
        created_at_end := Some ''2024-01-31''\<rparr>" "[Some shipped, Some cancelled]" sample_parse]
  by (simp add: no_filter_def ends_have_starts_def truthy_def)

lemma bounds_merge:
  assumes "s \<noteq> []" "e \<noteq> []" "parse s = Some a" "parse e = Some b"
  shows "end_bound parse (Some e) (start_bound parse (Some s) x)
         = Inr (Some \<lparr>gte = Some (Date a), lte = Some (Date b)\<rparr>)"
  using assms by (simp add: end_bound_def start_bound_def new_Date_def)

lemma range_holds_both:
  "range_holds (Some \<lparr>gte = Some (Date a), lte = Some (Date b)\<rparr>) (Some t) = Some (a \<le> t \<and> t \<le> b)"
  by (simp add: range_holds_def date_gte_def date_lte_def and3_def)

text \<open>
  Where the translator returns, the two \<^verbatim>\<open>created_at\<close> bounds are one range: with both
  set to parseable dates \<open>a\<close> and \<open>b\<close>, the translator returns a query whenever the
  \<^verbatim>\<open>closed_at\<close> end bound does not stand alone; the query it returns holds both bounds in
  one range object under \<^verbatim>\<open>created_at\<close>; its predicate is the conjunction of
  \<open>a \<le> created_at \<le> b\<close> with the predicate of the other fields, so it matches no order
  created before \<open>a\<close> or after \<open>b\<close>; and when the two bounds are the only fields set it
  matches exactly the orders with \<open>a \<le> created_at \<le> b\<close>, the two ends included.
\<close>

theorem both_bounds_merge_into_one_range:
  assumes "created_at_start f = Some s" and "created_at_end f = Some e"
    and "s \<noteq> []" and "e \<noteq> []" and "parse s = Some a" and "parse e = Some b"
  shows "((truthy (closed_at_end f) \<longrightarrow> truthy (closed_at_start f))
            \<longrightarrow> (\<exists>q. orders_query parse (Some f) = Inr q))
       \<and> (\<forall>q. orders_query parse (Some f) = Inr q \<longrightarrow>
             query.created_at q = Some \<lparr>gte = Some (Date a), lte = Some (Date b)\<rparr>
           \<and> (\<forall>d. matches q d
                    = and3 (Some (a \<le> Order.created_at d \<and> Order.created_at d \<le> b))
                        (matches (q\<lparr>query.created_at := None\<rparr>) d))
           \<and> (\<forall>d. Order.created_at d < a \<or> b < Order.created_at d
                    \<longrightarrow> matches q d \<noteq> Some True))
       \<and> (\<forall>d. \<exists>q. orders_query parse
                      (Some (no_filter\<lparr>created_at_start := Some s, created_at_end := Some e\<rparr>))
                    = Inr q
                \<and> matches q d = Some (a \<le> Order.created_at d \<and> Order.created_at d \<le> b))"
proof (intro conjI allI impI)
  assume "truthy (closed_at_end f) \<longrightarrow> truthy (closed_at_start f)"
  then have "ends_have_starts f"
    using assms by (simp add: ends_have_starts_def truthy_def)
  then show "\<exists>q. orders_query parse (Some f) = Inr q"
    by (rule orders_query_returns)
next
  fix q assume q: "orders_query parse (Some f) = Inr q"
  show c: "query.created_at q = Some \<lparr>gte = Some (Date a), lte = Some (Date b)\<rparr>"
    using orders_query_created_at [OF q] assms bounds_merge [of s e parse a b None]
    by simp
  show m: "matches q d = and3 (Some (a \<le> Order.created_at d \<and> Order.created_at d \<le> b))
      (matches (q\<lparr>query.created_at := None\<rparr>) d)" for d
    using matches_split_created_at [of q d] c by (simp add: range_holds_both)
  show "matches q d \<noteq> Some True" if "Order.created_at d < a \<or> b < Order.created_at d" for d
    using that m [of d] by (auto simp: and3_Some_True)
next
  fix d
  show "\<exists>q. orders_query parse
          (Some (no_filter\<lparr>created_at_start := Some s, created_at_end := Some e\<rparr>)) = Inr q
      \<and> matches q d = Some (a \<le> Order.created_at d \<and> Order.created_at d \<le> b)"
    using assms
    by (simp add: orders_query_def no_filter_def step_defs store_defs)
qed


theorem both_bounds_merge_into_one_range_witness:
  "sample_parse ''2024-01-01'' = Some 1704067200000
   \<and> sample_parse ''2024-01-31'' = Some 1706659200000
   \<and> orders_query sample_parse
        (Some (no_filter\<lparr>created_at_start := Some ''2024-01-01'',
                         created_at_end := Some ''2024-01-31''\<rparr>))
      = Inr (empty_query\<lparr>query.created_at :=
               Some \<lparr>gte = Some (Date 1704067200000), lte = Some (Date 1706659200000)\<rparr>\<rparr>)
   \<and> matches (empty_query\<lparr>query.created_at :=
               Some \<lparr>gte = Some (Date 1704067200000), lte = Some (Date 1706659200000)\<rparr>\<rparr>)
        (sample_order\<lparr>Order.created_at := 1704067200000\<rparr>) = Some True
   \<and> matches (empty_query\<lparr>query.created_at :=
               Some \<lparr>gte = Some (Date 1704067200000), lte = Some (Date 1706659200000)\<rparr>\<rparr>)
        (sample_order\<lparr>Order.created_at := 1706659200000\<rparr>) = Some True
   \<and> matches (empty_query\<lparr>query.created_at :=
               Some \<lparr>gte = Some (Date 1704067200000), lte = Some (Date 1706659200000)\<rparr>\<rparr>)
        (sample_order\<lparr>Order.created_at := 1704067199999\<rparr>) = Some False
   \<and> matches (empty_query\<lparr>query.created_at :=
               Some \<lparr>gte = Some (Date 1704067200000), lte = Some (Date 1706659200000)\<rparr>\<rparr>)
        (sample_order\<lparr>Order.created_at := 1706659200001\<rparr>) = Some False"
  using both_bounds_merge_into_one_range
    [of "no_filter\<lparr>created_at_start := Some ''2024-01-01'', created_at_end := Some ''2024-01-31''\<rparr>"
        "''2024-01-01''" "''2024-01-31''" sample_parse 1704067200000 1706659200000]
  by (simp add: orders_query_def no_filter_def sample_order_def sample_parse_def
      step_defs store_defs)

text \<open>
  Claim C3 asks, for every filter with both \<^verbatim>\<open>created_at\<close> bounds set to parseable dates,
  for a predicate that accepts the orders created at the bounds and rejects those outside.
  The code does not produce one when \<^verbatim>\<open>closed_at_end\<close> stands without
  \<^verbatim>\<open>closed_at_start\<close>: lines 102-112 merge the two bounds into one range object, then
  line 121 throws a \<^verbatim>\<open>TypeError\<close>, and no order is accepted. This is the defect of claim
  C1.
\<close>

theorem created_at_range_lost_when_closed_at_end_stands_alone:
  assumes "created_at_start f = Some s" and "created_at_end f = Some e"
    and "s \<noteq> []" and "e \<noteq> []" and "parse s = Some a" and "parse e = Some b"
    and "truthy (closed_at_end f)" and "\<not> truthy (closed_at_start f)"
  shows "end_bound parse (created_at_end f) (start_bound parse (created_at_start f) None)
           = Inr (Some \<lparr>gte = Some (Date a), lte = Some (Date b)\<rparr>)
       \<and> orders_query parse (Some f) = Inl TypeError"
proof
  show "end_bound parse (created_at_end f) (start_bound parse (created_at_start f) None)
      = Inr (Some \<lparr>gte = Some (Date a), lte = Some (Date b)\<rparr>)"
    using assms bounds_merge [of s e parse a b None] by simp
  have "\<not> ends_have_starts f"
    using assms(7,8) by (simp add: ends_have_starts_def)
  then show "orders_query parse (Some f) = Inl TypeError"
    by (rule orders_query_raises)
qed

theorem created_at_range_lost_when_closed_at_end_stands_alone_witness:
  "sample_parse ''2024-01-01'' = Some 1704067200000
   \<and> sample_parse ''2024-01-31'' = Some 1706659200000
   \<and> truthy (closed_at_end (no_filter\<lparr>created_at_start := Some ''2024-01-01'',
        created_at_end := Some ''2024-01-31'', closed_at_end := Some ''2024-02-15''\<rparr>))
   \<and> \<not> truthy (closed_at_start (no_filter\<lparr>created_at_start := Some ''2024-01-01'',
        created_at_end := Some ''2024-01-31'', closed_at_end := Some ''2024-02-15''\<rparr>))
   \<and> orders_query sample_parse (Some (no_filter\<lparr>created_at_start := Some ''2024-01-01'',
        created_at_end := Some ''2024-01-31'', closed_at_end := Some ''2024-02-15''\<rparr>))
      = Inl TypeError"
  using created_at_range_lost_when_closed_at_end_stands_alone
    [of "no_filter\<lparr>created_at_start := Some ''2024-01-01'',
        created_at_end := Some ''2024-01-31'', closed_at_end := Some ''2024-02-15''\<rparr>"
        "''2024-01-01''" "''2024-01-31''" sample_parse 1704067200000 1706659200000]
  by (simp add: no_filter_def sample_parse_def truthy_def)

lemma absent_if_empty_truthy [simp]: "truthy (absent_if_empty v) = truthy v"
  by (simp add: absent_if_empty_def truthy_def split: option.splits)

lemma start_bound_absent_if_empty [simp]:
  "start_bound parse (absent_if_empty v) x = start_bound parse v x"
  by (simp add: start_bound_def absent_if_empty_def split: option.splits)

lemma end_bound_absent_if_empty [simp]:
  "end_bound parse (absent_if_empty v) x = end_bound parse v x"
  by (simp add: end_bound_def absent_if_empty_def split: option.splits)

lemma client_name_step_without_empty [simp]:
  "client_name_step (without_empty_strings f) q = client_name_step f q"
  by (simp add: client_name_step_def without_empty_strings_def absent_if_empty_def
      split: option.splits)

lemma item_name_step_without_empty [simp]:
  "item_name_step (without_empty_strings f) q = item_name_step f q"
  by (simp add: item_name_step_def without_empty_strings_def absent_if_empty_def
      split: option.splits)

lemma without_empty_strings_fields [simp]:
  "FilterInput.status (without_empty_strings f) = FilterInput.status f"
  "created_at_start (without_empty_strings f) = absent_if_empty (created_at_start f)"
  "created_at_end (without_empty_strings f) = absent_if_empty (created_at_end f)"
  "closed_at_start (without_empty_strings f) = absent_if_empty (closed_at_start f)"
  "closed_at_end (without_empty_strings f) = absent_if_empty (closed_at_end f)"
  by (simp_all add: without_empty_strings_def)

text \<open>
  An empty string is an absent field, on every filter: the translator gives the same
  result for a filter and for the filter with every empty string field made absent (a
  filter with nothing else set gives the empty query object). Where the translator
  returns, \<^verbatim>\<open>status\<close> set to the empty list is stored as \<^verbatim>\<open>{ $in: [] }\<close>, and the
  predicate of such a query matches no order.
\<close>

theorem empty_string_is_absent_empty_status_matches_nothing:
  "orders_query parse (Some f) = orders_query parse (Some (without_empty_strings f))
   \<and> (FilterInput.status f = None \<and> without_empty_strings f = no_filter
        \<longrightarrow> orders_query parse (Some f) = Inr empty_query)
   \<and> (FilterInput.status f = Some [] \<longrightarrow>
        (\<forall>q d. orders_query parse (Some f) = Inr q
           \<longrightarrow> query.status q = Some [] \<and> matches q d \<noteq> Some True))
   \<and> (\<exists>q. orders_query parse (Some (no_filter\<lparr>FilterInput.status := Some []\<rparr>)) = Inr q
          \<and> (\<forall>d. matches q d = Some False))"
proof (intro conjI allI impI)
  show eq: "orders_query parse (Some f) = orders_query parse (Some (without_empty_strings f))"
    by (simp add: orders_query_Some cong del: sum.case_cong_weak)
  show "orders_query parse (Some f) = Inr empty_query"
    if "FilterInput.status f = None \<and> without_empty_strings f = no_filter"
    using that eq by (simp add: orders_query_def no_filter_def step_defs)
next
  fix q d
  assume st: "FilterInput.status f = Some []" and q: "orders_query parse (Some f) = Inr q"
  show s: "query.status q = Some []"
    using orders_query_status [OF q] st by simp
  show "matches q d \<noteq> Some True"
    using matches_split_status [of q d] s by (simp add: status_holds_def and3_def split: option.splits)
next
  show "\<exists>q. orders_query parse (Some (no_filter\<lparr>FilterInput.status := Some []\<rparr>)) = Inr q
      \<and> (\<forall>d. matches q d = Some False)"
    by (simp add: orders_query_def no_filter_def step_defs store_defs)
qed


theorem empty_string_is_absent_empty_status_matches_nothing_witness:
  "FilterInput.status (no_filter\<lparr>FilterInput.client_name := Some [], created_at_end := Some [],
       closed_at_start := Some [], item_name := Some []\<rparr>) = None
   \<and> without_empty_strings (no_filter\<lparr>FilterInput.client_name := Some [],
       created_at_end := Some [], closed_at_start := Some [], item_name := Some []\<rparr>) = no_filter
   \<and> orders_query sample_parse (Some (no_filter\<lparr>FilterInput.client_name := Some [],
       created_at_end := Some [], closed_at_start := Some [], item_name := Some []\<rparr>))
      = Inr empty_query
   \<and> FilterInput.status (no_filter\<lparr>FilterInput.status := Some []\<rparr>) = Some []
   \<and> orders_query sample_parse (Some (no_filter\<lparr>FilterInput.status := Some []\<rparr>))
      = Inr (empty_query\<lparr>query.status := Some []\<rparr>)
   \<and> matches (empty_query\<lparr>query.status := Some []\<rparr>) sample_order = Some False"
  using empty_string_is_absent_empty_status_matches_nothing
    [of sample_parse "no_filter\<lparr>FilterInput.client_name := Some [], created_at_end := Some [],
       closed_at_start := Some [], item_name := Some []\<rparr>"]
    empty_string_is_absent_empty_status_matches_nothing
    [of sample_parse "no_filter\<lparr>FilterInput.status := Some []\<rparr>"]
  by (simp add: orders_query_def no_filter_def sample_order_def without_empty_strings_def
      absent_if_empty_def step_defs store_defs)

text \<open>
  Claim C10 says that \<^verbatim>\<open>status\<close> set to the empty list produces a membership
  constraint over the empty set. The code does not produce it when an end bound stands
  without its start bound: lines 90-92 store the empty list, then line 109 (or line 121)
  throws a \<^verbatim>\<open>TypeError\<close>, and there is no constraint and no predicate. This is the defect
  of claim C1.
\<close>

theorem empty_status_lost_when_an_end_bound_stands_alone:
  assumes "FilterInput.status f = Some []" and "\<not> ends_have_starts f"
  shows "query.status (status_step f empty_query) = Some []
       \<and> orders_query parse (Some f) = Inl TypeError"
  using assms by (simp add: status_step_def orders_query_raises)

theorem empty_status_lost_when_an_end_bound_stands_alone_witness:
  "FilterInput.status (no_filter\<lparr>FilterInput.status := Some [],
        closed_at_end := Some ''2024-01-31''\<rparr>) = Some []
   \<and> \<not> ends_have_starts (no_filter\<lparr>FilterInput.status := Some [],
        closed_at_end := Some ''2024-01-31''\<rparr>)
   \<and> orders_query sample_parse (Some (no_filter\<lparr>FilterInput.status := Some [],
        closed_at_end := Some ''2024-01-31''\<rparr>))
      = Inl TypeError"
  using empty_status_lost_when_an_end_bound_stands_alone
    [of "no_filter\<lparr>FilterInput.status := Some [], closed_at_end := Some ''2024-01-31''\<rparr>"
        sample_parse]
  by (simp add: no_filter_def ends_have_starts_def truthy_def)
















section \<open>Properties of the bridge and of the HTTP handlers\<close>

lemma replace_all_Nil [simp]: "replace_all pat rep [] = []"
  by simp

lemma replace_all_Cons:
  "replace_all pat rep (c # cs) =
     (if pat \<noteq> [] \<and> prefix pat (c # cs)
      then rep @ replace_all pat rep (drop (length pat) (c # cs))
      else c # replace_all pat rep cs)"
  by (subst replace_all.simps) simp

declare replace_all.simps [simp del]

lemma replace_char:
  "replace_all [a] [b] s = map (\<lambda>c. if c = a then b else c) s"
  by (induction s) (auto simp: replace_all_Cons)

lemma prefix1: "prefix [a] s \<longleftrightarrow> (\<exists>t. s = a # t)"
  by (cases s) auto

lemma prefix2: "prefix [a, b] s \<longleftrightarrow> (\<exists>t. s = a # b # t)"
  by (cases s) (auto simp: prefix1)

lemma prefix3: "prefix [a, b, c] s \<longleftrightarrow> (\<exists>t. s = a # b # c # t)"
  by (cases s) (auto simp: prefix2)

lemma remove3_match:
  "prefix [b, b, b] s \<Longrightarrow> replace_all [b, b, b] [] s = replace_all [b, b, b] [] (drop 3 s)"
  by (subst replace_all.simps) (auto simp: prefix3 eval_nat_numeral)

lemma remove3_no_match:
  "\<not> prefix [b, b, b] (c # cs) \<Longrightarrow>
   replace_all [b, b, b] [] (c # cs) = c # replace_all [b, b, b] [] cs"
  by (subst replace_all.simps) auto

lemma remove3_head:
  "prefix [b] (replace_all [b, b, b] [] s) \<Longrightarrow> prefix [b] s"
proof (induction s rule: length_induct)
  case (1 s)
  show ?case
  proof (cases "prefix [b, b, b] s")
    case True
    then show ?thesis by (auto simp: prefix3 prefix1)
  next
    case False
    show ?thesis
    proof (cases s)
      case Nil
      with 1(2) show ?thesis by simp
    next
      case (Cons c cs)
      with False 1(2) show ?thesis by (simp add: remove3_no_match)
    qed
  qed
qed

lemma remove3_head2:
  "prefix [b, b] (replace_all [b, b, b] [] s) \<Longrightarrow> prefix [b, b] s"
proof (induction s rule: length_induct)
  case (1 s)
  show ?case
  proof (cases "prefix [b, b, b] s")
    case True
    then show ?thesis by (auto simp: prefix3 prefix2)
  next
    case False
    show ?thesis
    proof (cases s)
      case Nil
      with 1(2) show ?thesis by simp
    next
      case (Cons c cs)
      with False 1(2) have "c = b" and "prefix [b] (replace_all [b, b, b] [] cs)"
        by (auto simp: remove3_no_match)
      then show ?thesis using remove3_head [of b cs] by (simp add: Cons)
    qed
  qed
qed

lemma remove3_none_left: "\<not> sublist [b, b, b] (replace_all [b, b, b] [] s)"
proof (induction s rule: length_induct)
  case (1 s)
  show ?case
  proof (cases "prefix [b, b, b] s")
    case True
    then have "replace_all [b, b, b] [] s = replace_all [b, b, b] [] (drop 3 s)"
      by (rule remove3_match)
    moreover from True have "length (drop 3 s) < length s" by (auto simp: prefix3)
    ultimately show ?thesis using 1 by simp
  next
    case False
    show ?thesis
    proof (cases s)
      case Nil
      then show ?thesis by simp
    next
      case (Cons c cs)
      with False have r: "replace_all [b, b, b] [] s = c # replace_all [b, b, b] [] cs"
        by (simp add: remove3_no_match)
      have "\<not> prefix [b, b, b] (c # replace_all [b, b, b] [] cs)"
      proof
        assume "prefix [b, b, b] (c # replace_all [b, b, b] [] cs)"
        then have "c = b" and "prefix [b, b] (replace_all [b, b, b] [] cs)"
          by auto
        then have "prefix [b, b, b] s" using remove3_head2 [of b cs] by (simp add: Cons)
        with False show False by simp
      qed
      moreover have "\<not> sublist [b, b, b] (replace_all [b, b, b] [] cs)"
        using 1 by (simp add: Cons)
      ultimately show ?thesis
        using sublist_Cons_right [of "[b, b, b]" c "replace_all [b, b, b] [] cs"] by (simp add: r)
    qed
  qed
qed

lemma no_fence_after_removal: "\<not> sublist fence (replace_all fence [] s)"
  unfolding fence_def by (rule remove3_none_left)

lemma prefix_fence_map:
  assumes "\<And>x. f x = CHR 0x60 \<longleftrightarrow> x = CHR 0x60"
  shows "prefix fence (map f s) \<longleftrightarrow> prefix fence s"
  using assms by (auto simp: fence_def prefix3 map_eq_Cons_conv)

lemma sublist_fence_map:
  assumes "\<And>x. f x = CHR 0x60 \<longleftrightarrow> x = CHR 0x60"
  shows "sublist fence (map f s) \<longleftrightarrow> sublist fence s"
proof (induction s)
  case Nil
  then show ?case by simp
next
  case (Cons c s)
  have "prefix fence (map f (c # s)) \<longleftrightarrow> prefix fence (c # s)"
    using assms by (rule prefix_fence_map)
  with Cons show ?case
    by (simp add: sublist_Cons_right)
qed

lemma clean_query_no_fence: "\<not> sublist fence (clean_query content)"
  unfolding clean_query_def replace_char
  by (subst sublist_fence_map) (auto simp: no_fence_after_removal)

lemma clean_query_no_line_feed: "CHR 0x0A \<notin> set (clean_query content)"
  unfolding clean_query_def replace_char by auto


text \<open>
  Claim C5: when the call to the completion API is rejected, \<^verbatim>\<open>generateGraphQLQuery\<close>
  logs the error and returns \<^verbatim>\<open>null\<close>; and whatever the outcome of the call, it returns
  and does not throw.
\<close>

theorem bridge_returns_null_when_the_call_fails:
  "(api userInput = Rejected msg \<longrightarrow>
      generateGraphQLQuery api userInput
        = (Inr None,
           [Post_completions userInput,
            Console_error ''Error generating GraphQL query:'' (AxiosError msg)]))
   \<and> (\<exists>r evs. generateGraphQLQuery api userInput = (Inr r, evs))"
  by (auto simp: generateGraphQLQuery_def try_generate_def split: sum.splits)

theorem bridge_returns_null_when_the_call_fails_witness:
  "generateGraphQLQuery (\<lambda>u. Rejected ''timeout of 1000ms exceeded'')
       (JString ''orders that are shipped'')
     = (Inr None,
        [Post_completions (JString ''orders that are shipped''),
         Console_error ''Error generating GraphQL query:''
           (AxiosError ''timeout of 1000ms exceeded'')])"
  using bridge_returns_null_when_the_call_fails
    [of "\<lambda>u. Rejected ''timeout of 1000ms exceeded''" "JString ''orders that are shipped''"
        "''timeout of 1000ms exceeded''"]
  by simp

lemma falsy_400:
  assumes "falsy (map_of req_body ''userInput'')"
  shows "generate_query api req_body
           = (Inr (send 400 [(''error'', JString ''User input is required'')]), [])"
    and "fetch_orders api gql req_body
           = (Inr (send 400 [(''error'', JString ''User input is required'')]), [])"
  using assms by (auto simp: generate_query_def fetch_orders_def split: option.splits)

text \<open>
  Claim C9: when \<^verbatim>\<open>userInput\<close> is missing from the request body (or is falsy), both
  handlers answer 400 with the body \<^verbatim>\<open>{ error: "User input is required" }\<close> and do
  nothing else: no call is sent and nothing is logged. When \<^verbatim>\<open>userInput\<close> is there and
  the bridge returns \<^verbatim>\<open>null\<close>, both handlers answer 500 with a body that has an
  \<^verbatim>\<open>error\<close> field.
\<close>

theorem handlers_answer_400_and_500:
  "(falsy (map_of req_body ''userInput'') \<longrightarrow>
      generate_query api req_body
        = (Inr (send 400 [(''error'', JString ''User input is required'')]), [])
    \<and> fetch_orders api gql req_body
        = (Inr (send 400 [(''error'', JString ''User input is required'')]), []))
   \<and> (\<forall>u. map_of req_body ''userInput'' = Some u \<and> \<not> falsy (Some u)
          \<and> fst (generateGraphQLQuery api u) = Inr None \<longrightarrow>
        fst (generate_query api req_body)
          = Inr (send 500 [(''error'', JString ''Failed to generate GraphQL query'')])
      \<and> fst (fetch_orders api gql req_body)
          = Inr (send 500 [(''error'', JString ''Failed to generate GraphQL query'')]))"
proof (intro conjI allI impI)
  assume "falsy (map_of req_body ''userInput'')"
  then show "generate_query api req_body
      = (Inr (send 400 [(''error'', JString ''User input is required'')]), [])"
    and "fetch_orders api gql req_body
      = (Inr (send 400 [(''error'', JString ''User input is required'')]), [])"
    by (rule falsy_400)+
next
  fix u
  assume u: "map_of req_body ''userInput'' = Some u \<and> \<not> falsy (Some u)
      \<and> fst (generateGraphQLQuery api u) = Inr None"
  then obtain evs where g: "generateGraphQLQuery api u = (Inr None, evs)"
    by (cases "generateGraphQLQuery api u") auto
  show "fst (generate_query api req_body)
      = Inr (send 500 [(''error'', JString ''Failed to generate GraphQL query'')])"
    using u g by (simp add: generate_query_def)
  show "fst (fetch_orders api gql req_body)
      = Inr (send 500 [(''error'', JString ''Failed to generate GraphQL query'')])"
    using u g by (simp add: fetch_orders_def)
qed

theorem handlers_answer_400_and_500_witness:
  "falsy (map_of [(''limit'', JNumber 5 0)] ''userInput'')
   \<and> generate_query (\<lambda>u. Rejected ''Network Error'') [(''limit'', JNumber 5 0)]
      = (Inr \<lparr>status_code = 400, body = JObject [(''error'', JString ''User input is required'')]\<rparr>, [])
   \<and> fetch_orders (\<lambda>u. Rejected ''Network Error'') (\<lambda>q. Rejected ''Network Error'')
        [(''limit'', JNumber 5 0)]
      = (Inr \<lparr>status_code = 400, body = JObject [(''error'', JString ''User input is required'')]\<rparr>, [])
   \<and> fst (generateGraphQLQuery (\<lambda>u. Rejected ''Network Error'') (JString ''shipped orders''))
      = Inr None
   \<and> fst (generate_query (\<lambda>u. Rejected ''Network Error'')
        [(''userInput'', JString ''shipped orders'')])
      = Inr \<lparr>status_code = 500,
             body = JObject [(''error'', JString ''Failed to generate GraphQL query'')]\<rparr>
   \<and> fst (fetch_orders (\<lambda>u. Rejected ''Network Error'') (\<lambda>q. Rejected ''Network Error'')
        [(''userInput'', JString ''shipped orders'')])
      = Inr \<lparr>status_code = 500,
             body = JObject [(''error'', JString ''Failed to generate GraphQL query'')]\<rparr>"
  using handlers_answer_400_and_500
    [of "[(''limit'', JNumber 5 0)]" "\<lambda>u. Rejected ''Network Error''"
        "\<lambda>q. Rejected ''Network Error''"]
    handlers_answer_400_and_500
    [of "[(''userInput'', JString ''shipped orders'')]" "\<lambda>u. Rejected ''Network Error''"
        "\<lambda>q. Rejected ''Network Error''"]
  by (simp add: generate_query_def fetch_orders_def generateGraphQLQuery_def try_generate_def
      send_def)

lemma replace_all_absent: "\<not> sublist pat s \<Longrightarrow> replace_all pat rep s = s"
  by (induction s) (auto simp: replace_all_Cons sublist_Cons_right)

lemma sublist_append_left: "sublist (xs @ ys) zs \<Longrightarrow> sublist xs zs"
  by (auto simp: sublist_def)

lemma is_space_line_feed_to_space:
  "is_space (if x = CHR 0x0A then CHR '' '' else x) = is_space x"
  by (simp add: is_space_def)

lemma trim_map:
  assumes "\<And>x. is_space (f x) = is_space x"
  shows "trim (map f s) = map f (trim s)"
proof -
  have "is_space \<circ> f = is_space"
    using assms by (simp add: fun_eq_iff)
  then show ?thesis
    by (simp add: trim_def dropWhile_map rev_map)
qed

lemma dropWhile_rev_keeps_head:
  assumes "u \<noteq> []" and "\<not> P (hd u)"
  shows "\<exists>w. rev (dropWhile P (rev u)) = hd u # w"
proof -
  from assms(1) have "rev u = rev (tl u) @ [hd u]"
    by (cases u) simp_all
  with assms(2) have "dropWhile P (rev u) = dropWhile P (rev (tl u)) @ [hd u]"
    by (simp add: dropWhile_append3)
  then show ?thesis by simp
qed

lemma trim_idem: "trim (trim s) = trim s"
proof -
  define u where "u = dropWhile is_space s"
  define v where "v = rev (dropWhile is_space (rev u))"
  have u: "u = [] \<or> \<not> is_space (hd u)"
    unfolding u_def by (metis dropWhile_eq_Nil_conv hd_dropWhile)
  have 1: "dropWhile is_space v = v"
  proof (cases "u = []")
    case True
    then show ?thesis by (simp add: v_def)
  next
    case False
    with u obtain w where "v = hd u # w"
      unfolding v_def using dropWhile_rev_keeps_head [of u is_space] by blast
    with False u show ?thesis by simp
  qed
  have 2: "dropWhile is_space (rev v) = rev v"
    by (simp add: v_def)
  show ?thesis
    using 1 2 by (simp add: trim_def u_def [symmetric] v_def [symmetric])
qed

lemma clean_query_without_fence:
  assumes "\<not> sublist fence (trim content)"
  shows "clean_query content
         = map (\<lambda>x. if x = CHR 0x0A then CHR '' '' else x) (trim content)"
proof -
  have "\<not> sublist (fence @ ''graphql'') (trim content)"
    using assms sublist_append_left by blast
  then show ?thesis
    using assms by (simp add: clean_query_def replace_all_absent replace_char)
qed

text \<open>
  Claim C4, as amended: the cleaned string holds no triple backtick and no line feed.
  The content is trimmed before the fences are removed, not after: when the trimmed
  content holds no fence, the result is the trimmed content with every line feed replaced
  by a space, and it has no white space at either end.
\<close>

theorem clean_query_removes_fences_and_line_feeds:
  "\<not> sublist fence (clean_query content)
   \<and> CHR 0x0A \<notin> set (clean_query content)
   \<and> (\<not> sublist fence (trim content) \<longrightarrow>
        clean_query content = map (\<lambda>x. if x = CHR 0x0A then CHR '' '' else x) (trim content)
      \<and> trim (clean_query content) = clean_query content)"
proof (intro conjI impI)
  show "\<not> sublist fence (clean_query content)"
    by (rule clean_query_no_fence)
  show "CHR 0x0A \<notin> set (clean_query content)"
    by (rule clean_query_no_line_feed)
next
  assume a: "\<not> sublist fence (trim content)"
  then show c: "clean_query content
      = map (\<lambda>x. if x = CHR 0x0A then CHR '' '' else x) (trim content)"
    by (rule clean_query_without_fence)
  show "trim (clean_query content) = clean_query content"
    unfolding c using trim_map [of "\<lambda>x. if x = CHR 0x0A then CHR '' '' else x" "trim content"]
    by (simp add: is_space_line_feed_to_space trim_idem)
qed

lemmas clean_eval = clean_query_def fence_def trim_def is_space_def replace_all_Cons sublist_code

theorem clean_query_removes_fences_and_line_feeds_witness:
  "\<not> sublist fence (trim ('' query {'' @ [CHR 0x0A] @ '' orders { id } }'' @ [CHR 0x0A]))
   \<and> clean_query ('' query {'' @ [CHR 0x0A] @ '' orders { id } }'' @ [CHR 0x0A])
      = ''query {  orders { id } }''
   \<and> trim (clean_query ('' query {'' @ [CHR 0x0A] @ '' orders { id } }'' @ [CHR 0x0A]))
      = clean_query ('' query {'' @ [CHR 0x0A] @ '' orders { id } }'' @ [CHR 0x0A])"
  using clean_query_removes_fences_and_line_feeds
    [of "'' query {'' @ [CHR 0x0A] @ '' orders { id } }'' @ [CHR 0x0A]"]
  by (simp add: clean_eval)

text \<open>
  Claim C4 as stated fails: a response that is a fenced block comes out with a space at
  each end, because the line feeds next to the fences become spaces after the trimming;
  and of a fence with another language annotation only the backticks are removed, and a
  carriage return stays.
\<close>

theorem clean_query_keeps_spaces_annotations_and_carriage_returns:
  "clean_query (''```graphql'' @ [CHR 0x0A] @ ''query { orders { id } }'' @ [CHR 0x0A] @ ''```'')
     = '' query { orders { id } } ''
   \<and> trim '' query { orders { id } } '' \<noteq> '' query { orders { id } } ''
   \<and> clean_query (''```json'' @ [CHR 0x0A] @ ''query'' @ [CHR 0x0D, CHR 0x0A] @ ''```'')
     = ''json query'' @ [CHR 0x0D] @ '' ''"
  by (simp add: clean_eval)

end
